theory Spec2Isabelle
  imports Main "HOL-Library.Sublist"
begin

section \<open>Python values the front-end handles\<close>

text \<open>
  The program is \<^verbatim>\<open>src/frontend.py\<close>. Strings are \<^typ>\<open>string\<close>; a \<^typ>\<open>char\<close> stands
  for a code point below 256. Exceptions that the source does not catch are values
  of \<open>fault\<close>; a function that can raise returns \<open>fault + 'a\<close>, \<open>Inl\<close> being the raise.
\<close>

datatype fault =
    KeyError string
  | TypeError
  | AttributeError
  | JSONDecodeError
  | RequestException string
  | PdfReadError string
  | UnidentifiedImageError
  | OtherException string

text \<open>Decimal rendering of a non-negative Python \<^verbatim>\<open>int\<close>, as \<^verbatim>\<open>str\<close> and f-strings do it.\<close>

definition digit_char :: "nat \<Rightarrow> char" where
  "digit_char d = char_of (48 + d)"

function str_nat :: "nat \<Rightarrow> string" where
  "str_nat n = (if n < 10 then [digit_char n] else str_nat (n div 10) @ [digit_char (n mod 10)])"
  by pat_completeness auto
termination
  by (relation "measure (\<lambda>n. n)") auto

declare str_nat.simps [simp del]

text \<open>
  \<^verbatim>\<open>str.isspace\<close> on the code points below 256: tab, line feed, vertical tab, form
  feed, carriage return, the four separators 28..31, space, NEL (133) and the
  no-break space (160).
\<close>

definition py_isspace :: "char \<Rightarrow> bool" where
  "py_isspace c =
     (let n = (of_char c :: nat)
      in (9 \<le> n \<and> n \<le> 13) \<or> (28 \<le> n \<and> n \<le> 32) \<or> n = 133 \<or> n = 160)"

text \<open>
  \<^verbatim>\<open>s.split()\<close> with no argument: the maximal runs of non-whitespace characters, in
  order; \<open>w\<close> is the word being read.
\<close>

fun split_from :: "string \<Rightarrow> string \<Rightarrow> string list" where
  "split_from w [] = (if w = [] then [] else [w])"
| "split_from w (c # cs) =
     (if py_isspace c then (if w = [] then split_from [] cs else w # split_from [] cs)
      else split_from (w @ [c]) cs)"

definition py_split :: "string \<Rightarrow> string list" where
  "py_split s = split_from [] s"


text \<open>\<^verbatim>\<open>sep.join(xs)\<close> on a list of strings.\<close>

fun py_join :: "string \<Rightarrow> string list \<Rightarrow> string" where
  "py_join sep [] = []"
| "py_join sep [x] = x"
| "py_join sep (x # y # ys) = x @ sep @ py_join sep (y # ys)"

abbreviation nl :: string where
  "nl \<equiv> [CHR 0x0A]"

section \<open>The outside world\<close>

text \<open>A page of a PDF is what \<^verbatim>\<open>page.extract_text()\<close> gives on it: a string or a raise.\<close>

datatype page = Page (extract_text: "fault + string")

text \<open>
  A decoded PIL image, by what this program can observe of it: its data, what an
  f-string renders it as, and the number of bands \<^verbatim>\<open>image.split()\<close> returns.
\<close>

datatype image = PILImage (pixels: string) (image_str: string) (bands: nat)

text \<open>
  The \<^verbatim>\<open>content\<close> argument of the analyzer is an image object or a string; what is sent
  to the model is the list \<^verbatim>\<open>[prompt, content]\<close> or one string.
\<close>

datatype content = ImageObj image | TextStr string

datatype request = Parts string content | Payload string

text \<open>
  What one pass through the \<^verbatim>\<open>try\<close> block (\<^verbatim>\<open>model.generate_content(...)\<close>, then
  \<^verbatim>\<open>response.text\<close>) comes to: the text, a \<^verbatim>\<open>GoogleAPIError\<close> (its \<^verbatim>\<open>str\<close>), which the
  \<^verbatim>\<open>except\<close> clause catches, or any other exception, which it does not.
\<close>

datatype outcome = ResponseText string | GoogleAPIError string | Raises fault

text \<open>
  A parsed JSON body, as \<^verbatim>\<open>response.json()\<close> returns it. \<open>JObj\<close> is a \<^verbatim>\<open>dict\<close>, read
  with \<^const>\<open>map_of\<close>; \<open>JFloat m e\<close> stands for a float and is never computed with.
\<close>

datatype jvalue =
    JNull
  | JBool bool
  | JInt int
  | JFloat int int
  | JStr string
  | JArr "jvalue list"
  | JObj "(string \<times> jvalue) list"

record response =
  status_code :: int
  json :: "fault + jvalue"

text \<open>
  The libraries and services the program calls, and the module-level key it reads:
  \<^item> \<open>google_maps_api_key\<close>: \<^verbatim>\<open>os.getenv("GOOGLE_MAPS_API_KEY")\<close>, \<open>None\<close> when unset;
  \<^item> \<open>generate_content k req\<close>: the outcome of the \<open>k\<close>-th call (from 0) of the remote
    model within one invocation of the analyzer;
  \<^item> \<open>requests_get url\<close>: the response of \<^verbatim>\<open>requests.get(url)\<close>, or its raise;
  \<^item> \<open>py_repr\<close>: Python's rendering of a float, a list or a dict in an f-string;
  \<^item> \<open>PdfReader\<close>, \<open>Image_open\<close>: the parsers of PyPDF2 and PIL, from a file's bytes;
  \<^item> \<open>NamedTemporaryFile suffix\<close>: the path of the temporary file that is created.
\<close>

record env =
  google_maps_api_key :: "string option"
  generate_content :: "nat \<Rightarrow> request \<Rightarrow> outcome"
  requests_get :: "string \<Rightarrow> fault + response"
  py_repr :: "jvalue \<Rightarrow> string"
  PdfReader :: "string \<Rightarrow> fault + page list"
  Image_open :: "string \<Rightarrow> fault + image"
  NamedTemporaryFile :: "string \<Rightarrow> string"

text \<open>The effects of a run, in the order they happen.\<close>

datatype event =
    is_GenerateContent: GenerateContent request
  | is_Sleep: Sleep nat
  | HttpGet string
  | StWarning string
  | StError string
  | StTitle string
  | StWrite string
  | StSubheader string
  | StImage image

section \<open>Content Extractor\<close>

text \<open>
  \<^verbatim>\<open>
  def extract_text_from_pdf(pdf_file):
      pdf_reader = PyPDF2.PdfReader(pdf_file)
      text = ""
      for page in pdf_reader.pages:
          text += page.extract_text()
      return text
  \<close>
  The text of a page is the empty string when the page has no extractable text.
\<close>

fun extract_pages :: "string \<Rightarrow> page list \<Rightarrow> fault + string" where
  "extract_pages text [] = Inr text"
| "extract_pages text (page # pages) =
     (case extract_text page of
        Inl e \<Rightarrow> Inl e
      | Inr t \<Rightarrow> extract_pages (text @ t) pages)"

definition extract_text_from_pdf :: "env \<Rightarrow> string \<Rightarrow> fault + string" where
  "extract_text_from_pdf ext pdf_file =
     (case PdfReader ext pdf_file of
        Inl e \<Rightarrow> Inl e
      | Inr pages \<Rightarrow> extract_pages [] pages)"

section \<open>Report Analyzer\<close>

definition MAX_RETRIES :: nat where
  "MAX_RETRIES = 3"

definition RETRY_DELAY :: nat where
  "RETRY_DELAY = 2"

text \<open>The triple-quoted prompt: a line feed, eight lines indented by four spaces, four spaces.\<close>

definition prompt :: string where
  "prompt =
     nl @ ''    Analyze the provided medical report and provide:'' @
     nl @ ''    1. Current health issues detected.'' @
     nl @ ''    2. Possible future problems if untreated.'' @
     nl @ ''    3. Recommended doctors and specializations required.'' @
     nl @ ''    4. Necessary dietary restrictions based on the conditions found.'' @
     nl @ ''    5. Additional medical tests or investigations suggested.'' @
     nl @ ''    6. Lifestyle changes to improve overall health.'' @
     nl @ ''    Provide your response in a structured manner.'' @
     nl @ ''    ''"

text \<open>\<^verbatim>\<open>{content}\<close> in an f-string, and \<^verbatim>\<open>len(content.split())\<close>: both are defined on an
  image object as well as on a string.\<close>

definition content_str :: "content \<Rightarrow> string" where
  "content_str content = (case content of TextStr s \<Rightarrow> s | ImageObj i \<Rightarrow> image_str i)"

definition split_len :: "content \<Rightarrow> nat" where
  "split_len content = (case content of TextStr s \<Rightarrow> length (py_split s) | ImageObj i \<Rightarrow> bands i)"

text \<open>
  \<^verbatim>\<open>
  def fallback_analysis(content, content_type):
      st.warning("Using fallback analysis method due to API issues.")
      if content_type == "image":
          return "Unable to analyze the image due to API issues. Please try again later."
      else:  # text
          word_count = len(content.split())
          return f"""
          Fallback Analysis:
          - Document Type: Text-based medical report
          - Word Count: {word_count} words
          - Unable to analyze content in detail due to AI issues. Please consult a doctor manually.
          """
  \<close>
\<close>

definition fallback_analysis :: "content \<Rightarrow> string \<Rightarrow> event list \<times> string" where
  "fallback_analysis content content_type =
     ([StWarning ''Using fallback analysis method due to API issues.''],
      if content_type = ''image'' then
        ''Unable to analyze the image due to API issues. Please try again later.''
      else
        (let word_count = split_len content
         in nl @ ''        Fallback Analysis:'' @
            nl @ ''        - Document Type: Text-based medical report'' @
            nl @ ''        - Word Count: '' @ str_nat word_count @ '' words'' @
            nl @ ''        - Unable to analyze content in detail due to AI issues. Please consult a doctor manually.'' @
            nl @ ''        ''))"

text \<open>
  \<^verbatim>\<open>
  for attempt in range(MAX_RETRIES):
      try:
          if content_type == "image":
              response = model.generate_content([prompt, content])
          else:
              response = model.generate_content(f"{prompt}\n\n{content}")
          return response.text
      except exceptions.GoogleAPIError as e:
          if attempt < MAX_RETRIES - 1:
              st.warning(f"An error occurred. Retrying in {RETRY_DELAY} seconds... (Attempt {attempt + 1}/{MAX_RETRIES})")
              time.sleep(RETRY_DELAY)
          else:
              st.error(f"Failed to analyze the report after {MAX_RETRIES} attempts. Error: {str(e)}")
              return fallback_analysis(content, content_type)
  \<close>
  The loop runs over the list \<^verbatim>\<open>range(MAX_RETRIES)\<close>. A function body that ends without
  \<^verbatim>\<open>return\<close> gives \<^verbatim>\<open>None\<close>: the result is a \<^typ>\<open>string option\<close>.
\<close>

definition request_for :: "content \<Rightarrow> string \<Rightarrow> request" where
  "request_for content content_type =
     (if content_type = ''image'' then Parts prompt content
      else Payload (prompt @ nl @ nl @ content_str content))"

fun attempts :: "env \<Rightarrow> content \<Rightarrow> string \<Rightarrow> nat list \<Rightarrow> event list \<times> (fault + string option)" where
  "attempts ext content content_type [] = ([], Inr None)"
| "attempts ext content content_type (attempt # rest) =
     (case generate_content ext attempt (request_for content content_type) of
        ResponseText t \<Rightarrow>
          ([GenerateContent (request_for content content_type)], Inr (Some t))
      | Raises f \<Rightarrow>
          ([GenerateContent (request_for content content_type)], Inl f)
      | GoogleAPIError e \<Rightarrow>
          if attempt < MAX_RETRIES - 1 then
            ([GenerateContent (request_for content content_type),
              StWarning (''An error occurred. Retrying in '' @ str_nat RETRY_DELAY @
                         '' seconds... (Attempt '' @ str_nat (attempt + 1) @ ''/'' @
                         str_nat MAX_RETRIES @ '')''),
              Sleep RETRY_DELAY]
               @ fst (attempts ext content content_type rest),
             snd (attempts ext content content_type rest))
          else
            ([GenerateContent (request_for content content_type),
              StError (''Failed to analyze the report after '' @ str_nat MAX_RETRIES @
                       '' attempts. Error: '' @ e)]
               @ fst (fallback_analysis content content_type),
             Inr (Some (snd (fallback_analysis content content_type)))))"

definition analyze_medical_report ::
    "env \<Rightarrow> content \<Rightarrow> string \<Rightarrow> event list \<times> (fault + string option)" where
  "analyze_medical_report ext content content_type =
     attempts ext content content_type [0..<MAX_RETRIES]"

section \<open>Doctor Finder\<close>

text \<open>Python on a parsed JSON value: \<^verbatim>\<open>{v}\<close> in an f-string, \<^verbatim>\<open>v.get(k, d)\<close>, \<^verbatim>\<open>v[k]\<close> with a
  string key, and the items of \<^verbatim>\<open>v[:5]\<close>.\<close>

definition str_int :: "int \<Rightarrow> string" where
  "str_int i = (if i < 0 then ''-'' @ str_nat (nat (- i)) else str_nat (nat i))"

definition py_format :: "env \<Rightarrow> jvalue \<Rightarrow> string" where
  "py_format ext v =
     (case v of
        JStr s \<Rightarrow> s
      | JNull \<Rightarrow> ''None''
      | JBool b \<Rightarrow> (if b then ''True'' else ''False'')
      | JInt i \<Rightarrow> str_int i
      | _ \<Rightarrow> py_repr ext v)"

definition dict_get :: "jvalue \<Rightarrow> string \<Rightarrow> jvalue \<Rightarrow> fault + jvalue" where
  "dict_get v k d =
     (case v of
        JObj items \<Rightarrow> (case map_of items k of None \<Rightarrow> Inr d | Some x \<Rightarrow> Inr x)
      | _ \<Rightarrow> Inl AttributeError)"

definition subscript :: "jvalue \<Rightarrow> string \<Rightarrow> fault + jvalue" where
  "subscript v k =
     (case v of
        JObj items \<Rightarrow> (case map_of items k of None \<Rightarrow> Inl (KeyError k) | Some x \<Rightarrow> Inr x)
      | _ \<Rightarrow> Inl TypeError)"

text \<open>A list is sliced to its first five items and a string to its first five
  characters; \<^verbatim>\<open>None\<close>, a number and a \<^verbatim>\<open>dict\<close> cannot be sliced (on a \<^verbatim>\<open>dict\<close> the raise is
  a \<^verbatim>\<open>KeyError\<close> from Python 3.12 on).\<close>

definition first_five :: "jvalue \<Rightarrow> fault + jvalue list" where
  "first_five v =
     (case v of
        JArr xs \<Rightarrow> Inr (take 5 xs)
      | JStr s \<Rightarrow> Inr (map (\<lambda>c. JStr [c]) (take 5 s))
      | _ \<Rightarrow> Inl TypeError)"

text \<open>The list comprehension \<^verbatim>\<open>[f"{doc['name']} - {doc['formatted_address']}" for doc in ...]\<close>:
  the first raise ends it.\<close>

fun format_docs :: "env \<Rightarrow> jvalue list \<Rightarrow> fault + string list" where
  "format_docs ext [] = Inr []"
| "format_docs ext (doc # docs) =
     (case subscript doc ''name'' of
        Inl e \<Rightarrow> Inl e
      | Inr name \<Rightarrow>
          (case subscript doc ''formatted_address'' of
             Inl e \<Rightarrow> Inl e
           | Inr address \<Rightarrow>
               (case format_docs ext docs of
                  Inl e \<Rightarrow> Inl e
                | Inr rest \<Rightarrow> Inr ((py_format ext name @ '' - '' @ py_format ext address) # rest))))"

text \<open>
  \<^verbatim>\<open>
  def get_doctors(location, specialization="General Practitioner"):
      if not google_maps_api_key:
          return ["Google Maps API Key not found. Cannot fetch doctor recommendations."]
      url = f"https://maps.googleapis.com/maps/api/place/textsearch/json?query={specialization}+doctor+near+{location}&key={google_maps_api_key}"
      response = requests.get(url)
      if response.status_code == 200:
          results = response.json().get("results", [])
          return [f"{doc['name']} - {doc['formatted_address']}" for doc in results[:5]]
      return ["No doctors found or API issue occurred."]
  \<close>
  \<^verbatim>\<open>not google_maps_api_key\<close> holds of \<^verbatim>\<open>None\<close> and of the empty string.
\<close>

definition places_url :: "string \<Rightarrow> string \<Rightarrow> string \<Rightarrow> string" where
  "places_url key location specialization =
     ''https://maps.googleapis.com/maps/api/place/textsearch/json?query='' @ specialization @
     ''+doctor+near+'' @ location @ ''&key='' @ key"

definition doctors_of_response :: "env \<Rightarrow> response \<Rightarrow> fault + string list" where
  "doctors_of_response ext response =
     (if status_code response = 200 then
        (case json response of
           Inl e \<Rightarrow> Inl e
         | Inr body \<Rightarrow>
             (case dict_get body ''results'' (JArr []) of
                Inl e \<Rightarrow> Inl e
              | Inr results \<Rightarrow>
                  (case first_five results of
                     Inl e \<Rightarrow> Inl e
                   | Inr docs \<Rightarrow> format_docs ext docs)))
      else Inr [''No doctors found or API issue occurred.''])"

definition get_doctors :: "env \<Rightarrow> string \<Rightarrow> string \<Rightarrow> event list \<times> (fault + string list)" where
  "get_doctors ext location specialization =
     (case google_maps_api_key ext of
        None \<Rightarrow>
          ([], Inr [''Google Maps API Key not found. Cannot fetch doctor recommendations.''])
      | Some key \<Rightarrow>
          if key = [] then
            ([], Inr [''Google Maps API Key not found. Cannot fetch doctor recommendations.''])
          else
            ([HttpGet (places_url key location specialization)],
             case requests_get ext (places_url key location specialization) of
               Inl e \<Rightarrow> Inl e
             | Inr response \<Rightarrow> doctors_of_response ext response))"

text \<open>
  The same function as a step of the running process, for what it leaves behind. The
  state of the process is the module-level \<^verbatim>\<open>google_maps_api_key\<close> (assigned once, at
  line 16, when the module is loaded) and the number of HTTP requests sent so far.
  The backend is asked at a moment: \<open>backend n url\<close> is its response to \<open>url\<close> when \<open>n\<close>
  requests went before, so it may answer the same URL differently later. A call
  reads the key from the state, and \<^verbatim>\<open>requests.get\<close> moves the count on; the body has
  no other statement that touches the state (\<^verbatim>\<open>url\<close>, \<^verbatim>\<open>response\<close> and \<^verbatim>\<open>results\<close> are locals).
\<close>

record process =
  maps_key :: "string option"
  requests_sent :: nat

definition get_doctors_call ::
    "env \<Rightarrow> (nat \<Rightarrow> string \<Rightarrow> fault + response) \<Rightarrow> string \<Rightarrow> string \<Rightarrow> process
       \<Rightarrow> (fault + string list) \<times> process" where
  "get_doctors_call ext backend location specialization s =
     (case maps_key s of
        None \<Rightarrow>
          (Inr [''Google Maps API Key not found. Cannot fetch doctor recommendations.''], s)
      | Some key \<Rightarrow>
          if key = [] then
            (Inr [''Google Maps API Key not found. Cannot fetch doctor recommendations.''], s)
          else
            (case backend (requests_sent s) (places_url key location specialization) of
               Inl e \<Rightarrow> (Inl e, s\<lparr>requests_sent := Suc (requests_sent s)\<rparr>)
             | Inr response \<Rightarrow>
                 (doctors_of_response ext response, s\<lparr>requests_sent := Suc (requests_sent s)\<rparr>)))"

section \<open>Presentation Layer\<close>

text \<open>
  One run of \<^verbatim>\<open>main\<close>. What the widgets return is the record \<open>ui\<close>: \<^verbatim>\<open>st.text_input\<close> (the
  location), \<^verbatim>\<open>st.radio\<close> (the file type), \<^verbatim>\<open>st.file_uploader\<close> (the uploaded file's bytes,
  \<open>None\<close> when nothing is uploaded) and \<^verbatim>\<open>st.button\<close> of the branch taken. The files on disk are a map from
  paths to bytes. A run ends with the files it leaves, its effects and the exception
  that ended it, if any.
\<close>

record ui =
  text_input :: string
  radio :: string
  file_uploader :: "string option"
  button :: bool

type_synonym files = "string \<rightharpoonup> string"

text \<open>Lines 110..116 and 135..141, the same in both branches: show the analysis, then
  the doctors when a location was entered (with the default specialization).\<close>

definition show_results :: "env \<Rightarrow> string \<Rightarrow> string option \<Rightarrow> event list \<times> fault option" where
  "show_results ext loc analysis =
     (if loc \<noteq> [] then
        (case snd (get_doctors ext loc ''General Practitioner'') of
           Inl e \<Rightarrow>
             ([StSubheader ''Report Analysis Results:'',
               StWrite (case analysis of None \<Rightarrow> ''None'' | Some a \<Rightarrow> a)]
                @ fst (get_doctors ext loc ''General Practitioner''),
              Some e)
         | Inr doctors \<Rightarrow>
             ([StSubheader ''Report Analysis Results:'',
               StWrite (case analysis of None \<Rightarrow> ''None'' | Some a \<Rightarrow> a)]
                @ fst (get_doctors ext loc ''General Practitioner'')
                @ [StSubheader ''Recommended Doctors:'', StWrite (py_join nl doctors)],
              None))
      else
        ([StSubheader ''Report Analysis Results:'',
          StWrite (case analysis of None \<Rightarrow> ''None'' | Some a \<Rightarrow> a)],
         None))"

text \<open>
  Lines 98..118. The temporary file is written on every run with an uploaded image
  and unlinked by the last statement of the branch, after the button's block.
\<close>

definition image_branch :: "env \<Rightarrow> ui \<Rightarrow> files \<Rightarrow> files \<times> event list \<times> fault option" where
  "image_branch ext u fs =
     (case file_uploader u of
        None \<Rightarrow> (fs, [], None)
      | Some bytes \<Rightarrow>
          (let tmp_file_path = NamedTemporaryFile ext ''.png'';
               fs1 = fs(tmp_file_path \<mapsto> bytes)
           in case Image_open ext bytes of
                Inl e \<Rightarrow> (fs1, [], Some e)
              | Inr img \<Rightarrow>
                  if button u then
                    (case snd (analyze_medical_report ext (ImageObj img) ''image'') of
                       Inl e \<Rightarrow>
                         (fs1,
                          StImage img # fst (analyze_medical_report ext (ImageObj img) ''image''),
                          Some e)
                     | Inr analysis \<Rightarrow>
                         (case snd (show_results ext (text_input u) analysis) of
                            Some e \<Rightarrow>
                              (fs1,
                               StImage img # fst (analyze_medical_report ext (ImageObj img) ''image'')
                                 @ fst (show_results ext (text_input u) analysis),
                               Some e)
                          | None \<Rightarrow>
                              (fs1(tmp_file_path := None),
                               StImage img # fst (analyze_medical_report ext (ImageObj img) ''image'')
                                 @ fst (show_results ext (text_input u) analysis),
                               None)))
                  else (fs1(tmp_file_path := None), [StImage img], None)))"

text \<open>
  Lines 121..143. The temporary file is written inside the button's block and
  unlinked by the last statement of that block.
\<close>

definition pdf_branch :: "env \<Rightarrow> ui \<Rightarrow> files \<Rightarrow> files \<times> event list \<times> fault option" where
  "pdf_branch ext u fs =
     (case file_uploader u of
        None \<Rightarrow> (fs, [], None)
      | Some bytes \<Rightarrow>
          if button u then
            (let tmp_file_path = NamedTemporaryFile ext ''.pdf'';
                 fs1 = fs(tmp_file_path \<mapsto> bytes)
             in case extract_text_from_pdf ext bytes of
                  Inl e \<Rightarrow> (fs1, [StWrite ''PDF uploaded successfully''], Some e)
                | Inr pdf_text \<Rightarrow>
                    (case snd (analyze_medical_report ext (TextStr pdf_text) ''text'') of
                       Inl e \<Rightarrow>
                         (fs1,
                          StWrite ''PDF uploaded successfully''
                            # fst (analyze_medical_report ext (TextStr pdf_text) ''text''),
                          Some e)
                     | Inr analysis \<Rightarrow>
                         (case snd (show_results ext (text_input u) analysis) of
                            Some e \<Rightarrow>
                              (fs1,
                               StWrite ''PDF uploaded successfully''
                                 # fst (analyze_medical_report ext (TextStr pdf_text) ''text'')
                                 @ fst (show_results ext (text_input u) analysis),
                               Some e)
                          | None \<Rightarrow>
                              (fs1(tmp_file_path := None),
                               StWrite ''PDF uploaded successfully''
                                 # fst (analyze_medical_report ext (TextStr pdf_text) ''text'')
                                 @ fst (show_results ext (text_input u) analysis),
                               None))))
          else (fs, [StWrite ''PDF uploaded successfully''], None))"

definition main :: "env \<Rightarrow> ui \<Rightarrow> files \<Rightarrow> files \<times> event list \<times> fault option" where
  "main ext u fs =
     (case (if radio u = ''Image'' then image_branch ext u fs else pdf_branch ext u fs) of
        (fs', tr, r) \<Rightarrow>
          (fs',
           [StTitle ''HEALTH DIAGNOSIS'',
            StWrite ''Upload a medical report (image or PDF) for AI-based analysis.''] @ tr,
           r))"

section \<open>Observations and example inputs\<close>

text \<open>The remote-model calls and the waits of a run, in order, everything else dropped.\<close>

definition calls_and_waits :: "event list \<Rightarrow> event list" where
  "calls_and_waits tr = filter (\<lambda>e. is_GenerateContent e \<or> is_Sleep e) tr"

text \<open>
  A world in which everything outside fails: the model answers every call with an
  API error, the network is down, and neither parser accepts the upload. The other
  example worlds change one service of it.
\<close>

definition offline :: env where
  "offline =
     \<lparr>google_maps_api_key = Some ''k'',
      generate_content = (\<lambda>k req. GoogleAPIError ''503 Service Unavailable''),
      requests_get = (\<lambda>url. Inl (RequestException ''connection refused'')),
      py_repr = (\<lambda>v. ''<repr>''),
      PdfReader = (\<lambda>bytes. Inl (PdfReadError ''EOF marker not found'')),
      Image_open = (\<lambda>bytes. Inl UnidentifiedImageError),
      NamedTemporaryFile = (\<lambda>suffix. ''/tmp/tmpk3x9'' @ suffix)\<rparr>"

definition places :: "int \<Rightarrow> jvalue \<Rightarrow> env" where
  "places status body =
     offline\<lparr>requests_get := (\<lambda>url. Inr \<lparr>status_code = status, json = Inr body\<rparr>)\<rparr>"

definition doctor :: "string \<Rightarrow> string \<Rightarrow> jvalue" where
  "doctor name address =
     JObj [(''formatted_address'', JStr address), (''name'', JStr name), (''rating'', JInt 4)]"

definition seven_doctors :: "jvalue list" where
  "seven_doctors =
     [doctor ''Dr. A'' ''Addr A'', doctor ''Dr. B'' ''Addr B'', doctor ''Dr. C'' ''Addr C'',
      doctor ''Dr. D'' ''Addr D'', doctor ''Dr. E'' ''Addr E'', doctor ''Dr. F'' ''Addr F'',
      doctor ''Dr. G'' ''Addr G'']"

definition zero_results :: jvalue where
  "zero_results = JObj [(''status'', JStr ''ZERO_RESULTS'')]"

definition three_pages :: "page list" where
  "three_pages = [Page (Inr ''Hb 13.5 ''), Page (Inr []), Page (Inr ''WBC 7000'')]"

definition working :: env where
  "working =
     offline\<lparr>generate_content := (\<lambda>k req. ResponseText ''1. Mild anaemia.''),
              PdfReader := (\<lambda>bytes. Inr three_pages)\<rparr>"

definition xray :: image where
  "xray = PILImage ''...'' ''<PIL.PngImagePlugin.PngImageFile image mode=RGB size=640x480>'' 3"

definition pdf_upload :: ui where
  "pdf_upload =
     \<lparr>text_input = ''Pune'', radio = ''PDF'', file_uploader = Some ''%PDF-1.4'', button = True\<rparr>"

text \<open>A backend that serves its first two requests and is unavailable from the third on,
  and a process that has its key and has sent nothing yet.\<close>

definition two_good_answers :: "nat \<Rightarrow> string \<Rightarrow> fault + response" where
  "two_good_answers n url =
     (if n < 2 then Inr \<lparr>status_code = 200, json = Inr (JObj [(''results'', JArr seven_doctors)])\<rparr>
      else Inr \<lparr>status_code = 503, json = Inl JSONDecodeError\<rparr>)"

definition started :: process where
  "started = \<lparr>maps_key = Some ''k'', requests_sent = 0\<rparr>"

text \<open>A world whose model and parsers work while the network is down, and an image upload.\<close>

definition no_network :: env where
  "no_network = working\<lparr>Image_open := (\<lambda>bytes. Inr xray)\<rparr>"

definition image_upload :: ui where
  "image_upload =
     \<lparr>text_input = ''Pune'', radio = ''Image'', file_uploader = Some ''PNG-bytes'', button = True\<rparr>"

section \<open>Properties of the Content Extractor\<close>

lemma extract_pages_texts:
  "map extract_text pages = map Inr ts \<Longrightarrow> extract_pages acc pages = Inr (acc @ concat ts)"
proof (induction pages arbitrary: acc ts)
  case Nil
  then show ?case by simp
next
  case (Cons p ps)
  then obtain t ts' where ts: "ts = t # ts'" and p: "extract_text p = Inr t"
    and rest: "map extract_text ps = map Inr ts'"
    by (cases ts) auto
  from Cons.IH [OF rest] show ?case
    by (simp add: ts p)
qed

lemma extract_pages_append:
  "extract_pages acc (ps @ qs) =
     (case extract_pages acc ps of Inl e \<Rightarrow> Inl e | Inr acc' \<Rightarrow> extract_pages acc' qs)"
  by (induction ps arbitrary: acc) (auto split: sum.splits)

lemma extract_pages_empty_page:
  "extract_pages acc (ps @ Page (Inr []) # qs) = extract_pages acc (ps @ qs)"
  by (simp add: extract_pages_append split: sum.splits)

text \<open>
  C3. For a PDF that the reader opens as the pages \<open>pages\<close>, whose texts are \<open>ts\<close> (every
  page yields a string, the empty one when it has no extractable text),
  \<open>extract_text_from_pdf\<close> returns, without a raise, the concatenation of \<open>ts\<close> in page
  order; an empty text adds nothing to it.
\<close>

theorem extract_text_from_pdf_concat:
  assumes "PdfReader ext pdf_file = Inr pages"
    and "map extract_text pages = map Inr ts"
  shows "extract_text_from_pdf ext pdf_file = Inr (concat ts)"
  using extract_pages_texts [OF assms(2), of "[]"] assms(1)
  by (simp add: extract_text_from_pdf_def)

theorem extract_text_from_pdf_concat_witness:
  "extract_text_from_pdf working ''%PDF-1.4'' = Inr ''Hb 13.5 WBC 7000''"
  using extract_text_from_pdf_concat
    [of working "''%PDF-1.4''" three_pages "[''Hb 13.5 '', [], ''WBC 7000'']"]
  by (simp add: working_def offline_def three_pages_def)

section \<open>Properties of the Report Analyzer\<close>

lemma range_MAX_RETRIES: "[0..<MAX_RETRIES] = [0, 1, 2]"
  by (simp add: MAX_RETRIES_def upt_rec)

lemma str_nat_digits:
  "str_nat 1 = ''1''" "str_nat 2 = ''2''" "str_nat 3 = ''3''"
  "str_nat (Suc 0) = ''1''" "str_nat (Suc (Suc 0)) = ''2''"
  by code_simp+

text \<open>The loop never runs off its end: the analyzer returns a string, not \<^verbatim>\<open>None\<close>.\<close>

lemma analyze_medical_report_not_None:
  "snd (analyze_medical_report ext content content_type) \<noteq> Inr None"
  unfolding analyze_medical_report_def range_MAX_RETRIES
  by (simp add: MAX_RETRIES_def split: outcome.splits)

text \<open>
  C1. In every invocation of \<open>analyze_medical_report\<close> the remote model is called at
  most 3 times. The calls and waits of the run are one call, or two calls with one
  wait of 2 seconds between them, or three calls with one wait of 2 seconds between
  each two: a wait of exactly \<open>RETRY_DELAY = 2\<close> follows a failed first or second
  attempt, and nothing is waited for after the third attempt, failed or not.
\<close>

theorem analyze_medical_report_attempts_and_waits:
  "length (filter is_GenerateContent (fst (analyze_medical_report ext content content_type))) \<le> 3 \<and>
   (calls_and_waits (fst (analyze_medical_report ext content content_type))
      = [GenerateContent (request_for content content_type)] \<or>
    calls_and_waits (fst (analyze_medical_report ext content content_type))
      = [GenerateContent (request_for content content_type), Sleep 2,
         GenerateContent (request_for content content_type)] \<or>
    calls_and_waits (fst (analyze_medical_report ext content content_type))
      = [GenerateContent (request_for content content_type), Sleep 2,
         GenerateContent (request_for content content_type), Sleep 2,
         GenerateContent (request_for content content_type)])"
  unfolding analyze_medical_report_def range_MAX_RETRIES calls_and_waits_def
  by (simp add: MAX_RETRIES_def RETRY_DELAY_def fallback_analysis_def split: outcome.splits)

text \<open>The whole run when all three attempts fail: two waits, then the fallback.\<close>

lemma analyze_medical_report_three_failures_trace:
  assumes "generate_content ext 0 (request_for content content_type) = GoogleAPIError e0"
    and "generate_content ext 1 (request_for content content_type) = GoogleAPIError e1"
    and "generate_content ext 2 (request_for content content_type) = GoogleAPIError e2"
  shows "fst (analyze_medical_report ext content content_type) =
           [GenerateContent (request_for content content_type),
            StWarning ''An error occurred. Retrying in 2 seconds... (Attempt 1/3)'',
            Sleep 2,
            GenerateContent (request_for content content_type),
            StWarning ''An error occurred. Retrying in 2 seconds... (Attempt 2/3)'',
            Sleep 2,
            GenerateContent (request_for content content_type),
            StError (''Failed to analyze the report after 3 attempts. Error: '' @ e2),
            StWarning ''Using fallback analysis method due to API issues.'']"
  using assms
  unfolding analyze_medical_report_def range_MAX_RETRIES
  by (simp add: MAX_RETRIES_def RETRY_DELAY_def fallback_analysis_def str_nat_digits)

lemma analyze_medical_report_all_fail:
  assumes "\<forall>k<MAX_RETRIES. \<exists>e. generate_content ext k (request_for content content_type) = GoogleAPIError e"
  shows "snd (analyze_medical_report ext content content_type)
           = Inr (Some (snd (fallback_analysis content content_type)))"
proof -
  from assms obtain e0 e1 e2 where
    "generate_content ext 0 (request_for content content_type) = GoogleAPIError e0"
    "generate_content ext 1 (request_for content content_type) = GoogleAPIError e1"
    "generate_content ext 2 (request_for content content_type) = GoogleAPIError e2"
    unfolding MAX_RETRIES_def
    by (metis numeral_2_eq_2 numeral_3_eq_3 One_nat_def lessI less_SucI zero_less_Suc)
  then show ?thesis
    unfolding analyze_medical_report_def range_MAX_RETRIES
    by (simp add: MAX_RETRIES_def)
qed

lemma fallback_text_contains:
  assumes "content_type \<noteq> ''image''"
  shows "sublist (''Word Count: '' @ str_nat (split_len content) @ '' words'')
           (snd (fallback_analysis content content_type))"
    and "sublist (str_nat (split_len content)) (snd (fallback_analysis content content_type))"
    and "sublist ''Unable to analyze content in detail due to AI issues.''
           (snd (fallback_analysis content content_type))"
proof -
  let ?a = "snd (fallback_analysis content content_type)"
  let ?w = "str_nat (split_len content)"
  have "?a = (nl @ ''        Fallback Analysis:'' @
            nl @ ''        - Document Type: Text-based medical report'' @
            nl @ ''        - '') @ (''Word Count: '' @ ?w @ '' words'') @
            (nl @ ''        - Unable to analyze content in detail due to AI issues. Please consult a doctor manually.'' @
            nl @ ''        '')"
    using assms by (simp add: fallback_analysis_def)
  then show "sublist (''Word Count: '' @ ?w @ '' words'') ?a"
    by (metis sublist_appendI)
  have "?a = (nl @ ''        Fallback Analysis:'' @
            nl @ ''        - Document Type: Text-based medical report'' @
            nl @ ''        - Word Count: '') @ ?w @
            ('' words'' @
             nl @ ''        - Unable to analyze content in detail due to AI issues. Please consult a doctor manually.'' @
             nl @ ''        '')"
    using assms by (simp add: fallback_analysis_def)
  then show "sublist ?w ?a"
    by (metis sublist_appendI)
  have "?a = (nl @ ''        Fallback Analysis:'' @
            nl @ ''        - Document Type: Text-based medical report'' @
            nl @ ''        - Word Count: '' @ ?w @ '' words'' @
            nl @ ''        - '') @ ''Unable to analyze content in detail due to AI issues.'' @
            '' Please consult a doctor manually.'' @ nl @ ''        ''"
    using assms by (simp add: fallback_analysis_def)
  then show "sublist ''Unable to analyze content in detail due to AI issues.'' ?a"
    by (metis sublist_appendI)
qed

text \<open>
  C2. If all 3 attempts of \<open>analyze_medical_report\<close> fail with an API error, then for
  image input (\<open>content_type = ''image''\<close>) the result is exactly the string "Unable to
  analyze the image due to API issues. Please try again later.", and for text input
  \<open>s\<close> the result contains the decimal numeral of \<open>W = length (py_split s)\<close>, the number
  of whitespace-separated words of \<open>s\<close> (as "Word Count: W words"), and the sentence
  "Unable to analyze content in detail due to AI issues.".
\<close>

theorem analyze_fallback_after_three_failures:
  assumes "\<forall>k<MAX_RETRIES. \<exists>e. generate_content ext k (request_for content content_type) = GoogleAPIError e"
  shows "(content_type = ''image'' \<longrightarrow>
            snd (analyze_medical_report ext content content_type)
              = Inr (Some ''Unable to analyze the image due to API issues. Please try again later.'')) \<and>
         (content_type \<noteq> ''image'' \<and> content = TextStr s \<longrightarrow>
            (\<exists>a. snd (analyze_medical_report ext content content_type) = Inr (Some a) \<and>
                 sublist (str_nat (length (py_split s))) a \<and>
                 sublist (''Word Count: '' @ str_nat (length (py_split s)) @ '' words'') a \<and>
                 sublist ''Unable to analyze content in detail due to AI issues.'' a))"
proof (intro conjI impI)
  assume "content_type = ''image''"
  then show "snd (analyze_medical_report ext content content_type)
              = Inr (Some ''Unable to analyze the image due to API issues. Please try again later.'')"
    using analyze_medical_report_all_fail [OF assms] by (simp add: fallback_analysis_def)
next
  assume h: "content_type \<noteq> ''image'' \<and> content = TextStr s"
  then have w: "split_len content = length (py_split s)"
    by (simp add: split_len_def)
  show "\<exists>a. snd (analyze_medical_report ext content content_type) = Inr (Some a) \<and>
                 sublist (str_nat (length (py_split s))) a \<and>
                 sublist (''Word Count: '' @ str_nat (length (py_split s)) @ '' words'') a \<and>
                 sublist ''Unable to analyze content in detail due to AI issues.'' a"
    using analyze_medical_report_all_fail [OF assms] fallback_text_contains [of content_type content] h
    unfolding w by blast
qed

theorem analyze_fallback_after_three_failures_witness:
  "snd (analyze_medical_report offline (ImageObj xray) ''image'')
     = Inr (Some ''Unable to analyze the image due to API issues. Please try again later.'') \<and>
   (\<exists>a. snd (analyze_medical_report offline (TextStr ''Hb 13.5 g/dL'') ''text'') = Inr (Some a) \<and>
        sublist ''3'' a \<and>
        sublist ''Word Count: 3 words'' a \<and>
        sublist ''Unable to analyze content in detail due to AI issues.'' a)"
proof -
  have fails: "\<forall>k<MAX_RETRIES. \<exists>e. generate_content offline k (request_for c t) = GoogleAPIError e" for c t
    by (simp add: offline_def)
  have words: "length (py_split ''Hb 13.5 g/dL'') = 3"
    by (simp add: py_split_def py_isspace_def)
  show ?thesis
    using analyze_fallback_after_three_failures [OF fails, of "''image''" "ImageObj xray"]
      analyze_fallback_after_three_failures [OF fails, of "''text''" "TextStr ''Hb 13.5 g/dL''" "''Hb 13.5 g/dL''"]
    by (simp add: words str_nat_digits)
qed

section \<open>Properties of the Doctor Finder\<close>

lemma format_docs_fields:
  "list_all2 (\<lambda>doc (name, address). subscript doc ''name'' = Inr name \<and>
        subscript doc ''formatted_address'' = Inr address) docs pairs
   \<Longrightarrow> format_docs ext docs
         = Inr (map (\<lambda>(name, address). py_format ext name @ '' - '' @ py_format ext address) pairs)"
  by (induction docs pairs rule: list_all2_induct) auto

lemma format_docs_length:
  "format_docs ext docs = Inr ds \<Longrightarrow> length ds = length docs"
  by (induction docs arbitrary: ds) (auto split: sum.splits)

lemma first_five_length:
  "first_five v = Inr docs \<Longrightarrow> length docs \<le> 5"
  by (auto simp: first_five_def split: jvalue.splits)

lemma doctors_of_response_length:
  "doctors_of_response ext response = Inr ds \<Longrightarrow> length ds \<le> 5"
  by (auto simp: doctors_of_response_def dest!: format_docs_length dest: first_five_length
      split: if_splits sum.splits)

lemma py_format_cong:
  "py_repr ext1 = py_repr ext2 \<Longrightarrow> py_format ext1 v = py_format ext2 v"
  by (simp add: py_format_def split: jvalue.splits)

lemma format_docs_cong:
  "py_repr ext1 = py_repr ext2 \<Longrightarrow> format_docs ext1 docs = format_docs ext2 docs"
  by (induction docs) (auto simp: py_format_cong [of ext1 ext2] split: sum.splits)

lemma doctors_of_response_cong:
  "py_repr ext1 = py_repr ext2 \<Longrightarrow> doctors_of_response ext1 response = doctors_of_response ext2 response"
  by (simp add: doctors_of_response_def format_docs_cong [of ext1 ext2] split: sum.splits)

lemma seven_doctors_fields:
  "list_all2 (\<lambda>doc (name, address). subscript doc ''name'' = Inr name \<and>
      subscript doc ''formatted_address'' = Inr address) seven_doctors
     [(JStr ''Dr. A'', JStr ''Addr A''), (JStr ''Dr. B'', JStr ''Addr B''),
      (JStr ''Dr. C'', JStr ''Addr C''), (JStr ''Dr. D'', JStr ''Addr D''),
      (JStr ''Dr. E'', JStr ''Addr E''), (JStr ''Dr. F'', JStr ''Addr F''),
      (JStr ''Dr. G'', JStr ''Addr G'')]"
  by (simp add: seven_doctors_def doctor_def subscript_def)

text \<open>
  C4. For an HTTP 200 response whose body has a \<open>results\<close> array of more than 5 entries,
  each with a \<open>name\<close> and a \<open>formatted_address\<close>, \<open>get_doctors\<close> returns exactly 5 strings:
  "name - formatted_address" of the first 5 entries, in the order of the response
  (a string field is rendered as it is, see \<open>py_format\<close>).
\<close>

theorem get_doctors_first_five:
  assumes "google_maps_api_key ext = Some key" and "key \<noteq> []"
    and "requests_get ext (places_url key location specialization) = Inr response"
    and "status_code response = 200"
    and "json response = Inr (JObj items)"
    and "map_of items ''results'' = Some (JArr entries)"
    and "5 < length entries"
    and "list_all2 (\<lambda>doc (name, address). subscript doc ''name'' = Inr name \<and>
            subscript doc ''formatted_address'' = Inr address) entries pairs"
  shows "snd (get_doctors ext location specialization)
           = Inr (map (\<lambda>(name, address). py_format ext name @ '' - '' @ py_format ext address)
                    (take 5 pairs)) \<and>
         length (take 5 pairs) = 5"
proof -
  from assms(8) have len: "length pairs = length entries"
    by (simp add: list_all2_lengthD)
  from assms(8) have "list_all2 (\<lambda>doc (name, address). subscript doc ''name'' = Inr name \<and>
            subscript doc ''formatted_address'' = Inr address) (take 5 entries) (take 5 pairs)"
    by (rule list_all2_takeI)
  then have "format_docs ext (take 5 entries)
      = Inr (map (\<lambda>(name, address). py_format ext name @ '' - '' @ py_format ext address) (take 5 pairs))"
    by (rule format_docs_fields)
  then show ?thesis
    using assms(1-7) len
    by (simp add: get_doctors_def doctors_of_response_def dict_get_def first_five_def)
qed

theorem get_doctors_first_five_witness:
  "snd (get_doctors (places 200 (JObj [(''results'', JArr seven_doctors), (''status'', JStr ''OK'')]))
          ''Pune'' ''General Practitioner'')
     = Inr [''Dr. A - Addr A'', ''Dr. B - Addr B'', ''Dr. C - Addr C'', ''Dr. D - Addr D'',
            ''Dr. E - Addr E'']"
  using get_doctors_first_five
    [of "places 200 (JObj [(''results'', JArr seven_doctors), (''status'', JStr ''OK'')])" "''k''"
        "''Pune''" "''General Practitioner''"
        "\<lparr>status_code = 200,
          json = Inr (JObj [(''results'', JArr seven_doctors), (''status'', JStr ''OK'')])\<rparr>"
        "[(''results'', JArr seven_doctors), (''status'', JStr ''OK'')]" seven_doctors,
     OF _ _ _ _ _ _ _ seven_doctors_fields]
  by (simp add: places_def offline_def py_format_def seven_doctors_def)

text \<open>
  C5, as the code has it. For an HTTP 200 response whose JSON body is an object with
  no \<open>results\<close> field, \<open>get_doctors\<close> returns the empty sequence: the default of
  \<^verbatim>\<open>.get("results", [])\<close> is formatted entry by entry, and it has none.
\<close>

theorem get_doctors_missing_results:
  assumes "google_maps_api_key ext = Some key" and "key \<noteq> []"
    and "requests_get ext (places_url key location specialization) = Inr response"
    and "status_code response = 200"
    and "json response = Inr (JObj items)"
    and "map_of items ''results'' = None"
  shows "get_doctors ext location specialization
           = ([HttpGet (places_url key location specialization)], Inr [])"
  using assms by (simp add: get_doctors_def doctors_of_response_def dict_get_def first_five_def)

theorem get_doctors_missing_results_witness:
  "get_doctors (places 200 zero_results) ''Pune'' ''General Practitioner''
     = ([HttpGet (places_url ''k'' ''Pune'' ''General Practitioner'')], Inr [])"
  using get_doctors_missing_results
    [of "places 200 zero_results" "''k''" "''Pune''" "''General Practitioner''"
        "\<lparr>status_code = 200, json = Inr zero_results\<rparr>" "[(''status'', JStr ''ZERO_RESULTS'')]"]
  by (simp add: places_def offline_def zero_results_def)

text \<open>
  C5 as stated fails: on a 200 response without a \<open>results\<close> field the function does
  not return a single "no doctors found" string; it returns no string at all.
\<close>

theorem get_doctors_missing_results_counterexample:
  "snd (get_doctors (places 200 zero_results) ''Pune'' ''General Practitioner'') = Inr [] \<and>
   snd (get_doctors (places 200 zero_results) ''Pune'' ''General Practitioner'')
     \<noteq> Inr [''No doctors found or API issue occurred.''] \<and>
   (\<nexists>m. snd (get_doctors (places 200 zero_results) ''Pune'' ''General Practitioner'') = Inr [m])"
  by (simp add: get_doctors_def doctors_of_response_def dict_get_def first_five_def
      places_def offline_def zero_results_def)

text \<open>
  C6. For a response with a status other than 200, whatever its body, \<open>get_doctors\<close>
  returns exactly the one-element list "No doctors found or API issue occurred.", and
  the run consists of the one request: nothing is retried.
\<close>

theorem get_doctors_non_200:
  assumes "google_maps_api_key ext = Some key" and "key \<noteq> []"
    and "requests_get ext (places_url key location specialization) = Inr response"
    and "status_code response \<noteq> 200"
  shows "get_doctors ext location specialization
           = ([HttpGet (places_url key location specialization)],
              Inr [''No doctors found or API issue occurred.''])"
  using assms by (simp add: get_doctors_def doctors_of_response_def)

theorem get_doctors_non_200_witness:
  "get_doctors (places 404 (JObj [(''results'', JArr seven_doctors)])) ''Pune'' ''Cardiologist''
     = ([HttpGet (places_url ''k'' ''Pune'' ''Cardiologist'')],
        Inr [''No doctors found or API issue occurred.''])"
  using get_doctors_non_200
    [of "places 404 (JObj [(''results'', JArr seven_doctors)])" "''k''" "''Pune''" "''Cardiologist''"
        "\<lparr>status_code = 404, json = Inr (JObj [(''results'', JArr seven_doctors)])\<rparr>"]
  by (simp add: places_def offline_def)

text \<open>
  C7. With no places credential configured (the key is \<^verbatim>\<open>None\<close> or empty), for every
  location and specialization \<open>get_doctors\<close> returns a one-element list, the
  explanation, and the run has no event: no request is made.
\<close>

theorem get_doctors_no_key:
  assumes "google_maps_api_key ext = None \<or> google_maps_api_key ext = Some []"
  shows "get_doctors ext location specialization
           = ([], Inr [''Google Maps API Key not found. Cannot fetch doctor recommendations.''])"
  using assms by (auto simp: get_doctors_def)

theorem get_doctors_no_key_witness:
  "get_doctors (places 200 (JObj [(''results'', JArr seven_doctors)])\<lparr>google_maps_api_key := None\<rparr>)
       ''Pune'' ''General Practitioner''
     = ([], Inr [''Google Maps API Key not found. Cannot fetch doctor recommendations.'']) \<and>
   get_doctors (offline\<lparr>google_maps_api_key := Some []\<rparr>) ''Pune'' ''General Practitioner''
     = ([], Inr [''Google Maps API Key not found. Cannot fetch doctor recommendations.''])"
  using get_doctors_no_key
    [of "places 200 (JObj [(''results'', JArr seven_doctors)])\<lparr>google_maps_api_key := None\<rparr>"
        "''Pune''" "''General Practitioner''"]
    get_doctors_no_key
    [of "offline\<lparr>google_maps_api_key := Some []\<rparr>" "''Pune''" "''General Practitioner''"]
  by simp

text \<open>In one world, the result depends on the backend through its response to the one
  URL only, and on the rest of the world through the key and Python's rendering.\<close>

lemma get_doctors_one_response:
  assumes "google_maps_api_key ext1 = google_maps_api_key ext2"
    and "py_repr ext1 = py_repr ext2"
    and "\<forall>key. google_maps_api_key ext1 = Some key \<longrightarrow>
           requests_get ext1 (places_url key location specialization)
             = requests_get ext2 (places_url key location specialization)"
  shows "get_doctors ext1 location specialization = get_doctors ext2 location specialization"
proof (cases "google_maps_api_key ext1")
  case None
  with assms(1) show ?thesis
    by (simp add: get_doctors_def)
next
  case (Some key)
  with assms(1) have k2: "google_maps_api_key ext2 = Some key"
    by simp
  from assms(3) Some have
    "requests_get ext1 (places_url key location specialization)
       = requests_get ext2 (places_url key location specialization)"
    by simp
  then show ?thesis
    using Some k2 doctors_of_response_cong [OF assms(2)]
    by (simp add: get_doctors_def split: sum.splits)
qed

lemma doctors_of_response_services:
  "doctors_of_response (ext\<lparr>google_maps_api_key := k, requests_get := g\<rparr>) response
     = doctors_of_response ext response"
  by (rule doctors_of_response_cong) simp

text \<open>The step agrees with \<open>get_doctors\<close> in the world the process is in at that moment,
  and sends exactly the requests \<open>get_doctors\<close> lists.\<close>

lemma get_doctors_call_get_doctors:
  "fst (get_doctors_call ext backend location specialization s)
     = snd (get_doctors (ext\<lparr>google_maps_api_key := maps_key s,
                               requests_get := backend (requests_sent s)\<rparr>)
              location specialization)"
  "requests_sent (snd (get_doctors_call ext backend location specialization s))
     = requests_sent s
       + length (fst (get_doctors (ext\<lparr>google_maps_api_key := maps_key s,
                                          requests_get := backend (requests_sent s)\<rparr>)
                        location specialization))"
  by (auto simp: get_doctors_call_def get_doctors_def doctors_of_response_services
      split: option.splits sum.splits)

lemma get_doctors_call_with_key:
  assumes "maps_key s = Some key" and "key \<noteq> []"
  shows "get_doctors_call ext backend location specialization s
           = (case backend (requests_sent s) (places_url key location specialization) of
                Inl e \<Rightarrow> Inl e
              | Inr response \<Rightarrow> doctors_of_response ext response,
              s\<lparr>requests_sent := Suc (requests_sent s)\<rparr>)"
  using assms by (simp add: get_doctors_call_def split: sum.splits)

lemma get_doctors_call_maps_key:
  "maps_key (snd (get_doctors_call ext backend location specialization s)) = maps_key s"
  by (simp add: get_doctors_call_def split: option.splits sum.splits)

lemma get_doctors_call_requests_sent:
  "requests_sent (snd (get_doctors_call ext backend location specialization s))
     = (case maps_key s of
          None \<Rightarrow> requests_sent s
        | Some key \<Rightarrow> if key = [] then requests_sent s else Suc (requests_sent s))"
  by (simp add: get_doctors_call_def split: option.splits sum.splits)

text \<open>
  C8. Two calls of \<open>get_doctors\<close> one after the other, with the same location and
  specialization, the second starting in the state the first has left: if the backend
  gives the second request the response it gave the first, the second call returns
  the same ordered list (or the same raise) as the first. And a call leaves the
  module-level key as it found it, which is all the state of the module that the
  function reads: the result is a function of the arguments, the key and the response.
\<close>

theorem get_doctors_twice_same_list:
  assumes "\<forall>key. maps_key s = Some key \<longrightarrow>
             backend (Suc (requests_sent s)) (places_url key location specialization)
               = backend (requests_sent s) (places_url key location specialization)"
  shows "fst (get_doctors_call ext backend location specialization
                (snd (get_doctors_call ext backend location specialization s)))
           = fst (get_doctors_call ext backend location specialization s) \<and>
         maps_key (snd (get_doctors_call ext backend location specialization s)) = maps_key s \<and>
         maps_key (snd (get_doctors_call ext backend location specialization
                          (snd (get_doctors_call ext backend location specialization s))))
           = maps_key s"
proof (intro conjI)
  let ?s1 = "snd (get_doctors_call ext backend location specialization s)"
  show k1: "maps_key ?s1 = maps_key s"
    by (rule get_doctors_call_maps_key)
  show "maps_key (snd (get_doctors_call ext backend location specialization ?s1)) = maps_key s"
    by (simp add: get_doctors_call_maps_key)
  show "fst (get_doctors_call ext backend location specialization ?s1)
          = fst (get_doctors_call ext backend location specialization s)"
  proof (cases "maps_key s")
    case None
    then show ?thesis
      by (simp add: get_doctors_call_def)
  next
    case (Some key)
    show ?thesis
    proof (cases "key = []")
      case True
      with Some show ?thesis
        by (simp add: get_doctors_call_def)
    next
      case False
      from assms Some have
        "backend (Suc (requests_sent s)) (places_url key location specialization)
           = backend (requests_sent s) (places_url key location specialization)"
        by simp
      with Some False show ?thesis
        by (simp add: get_doctors_call_with_key [of _ key])
    qed
  qed
qed

lemma two_good_answers_first_call:
  "get_doctors_call offline two_good_answers ''Pune'' ''Cardiologist'' started
     = (Inr [''Dr. A - Addr A'', ''Dr. B - Addr B'', ''Dr. C - Addr C'', ''Dr. D - Addr D'',
             ''Dr. E - Addr E''],
        \<lparr>maps_key = Some ''k'', requests_sent = 1\<rparr>)"
  by (simp add: get_doctors_call_def two_good_answers_def started_def doctors_of_response_def
      dict_get_def first_five_def seven_doctors_def doctor_def subscript_def py_format_def)

theorem get_doctors_twice_same_list_witness:
  "fst (get_doctors_call offline two_good_answers ''Pune'' ''Cardiologist''
          (snd (get_doctors_call offline two_good_answers ''Pune'' ''Cardiologist'' started)))
     = Inr [''Dr. A - Addr A'', ''Dr. B - Addr B'', ''Dr. C - Addr C'', ''Dr. D - Addr D'',
            ''Dr. E - Addr E''] \<and>
   maps_key (snd (get_doctors_call offline two_good_answers ''Pune'' ''Cardiologist''
                    (snd (get_doctors_call offline two_good_answers ''Pune'' ''Cardiologist'' started))))
     = Some ''k''"
proof -
  have "\<forall>key. maps_key started = Some key \<longrightarrow>
          two_good_answers (Suc (requests_sent started)) (places_url key ''Pune'' ''Cardiologist'')
            = two_good_answers (requests_sent started) (places_url key ''Pune'' ''Cardiologist'')"
    by (simp add: two_good_answers_def started_def)
  from get_doctors_twice_same_list [OF this, of offline] show ?thesis
    by (simp add: two_good_answers_first_call) (simp add: started_def)
qed

text \<open>The condition on the backend is needed: the third request is answered with a 503,
  and the third call returns another list.\<close>

lemma two_good_answers_third_call:
  "fst (get_doctors_call offline two_good_answers ''Pune'' ''Cardiologist''
          \<lparr>maps_key = Some ''k'', requests_sent = 2\<rparr>)
     = Inr [''No doctors found or API issue occurred.'']"
  by (simp add: get_doctors_call_def two_good_answers_def doctors_of_response_def)

text \<open>
  C10. Whenever \<open>get_doctors\<close> returns a list (with no credential, on a status other
  than 200, and on status 200 with any \<open>results\<close>), the list has at most 5 elements;
  and a 200 response whose body is an object with an empty \<open>results\<close> array, or with
  none, gives the empty list and no raise.
\<close>

theorem get_doctors_at_most_five:
  "(\<forall>ds. snd (get_doctors ext location specialization) = Inr ds \<longrightarrow> length ds \<le> 5) \<and>
   (\<forall>key response items.
      google_maps_api_key ext = Some key \<and> key \<noteq> [] \<and>
      requests_get ext (places_url key location specialization) = Inr response \<and>
      status_code response = 200 \<and> json response = Inr (JObj items) \<and>
      (map_of items ''results'' = None \<or> map_of items ''results'' = Some (JArr []))
      \<longrightarrow> snd (get_doctors ext location specialization) = Inr [])"
proof (intro conjI allI impI)
  fix ds
  assume "snd (get_doctors ext location specialization) = Inr ds"
  then show "length ds \<le> 5"
    by (auto simp: get_doctors_def split: option.splits if_splits sum.splits
        dest: doctors_of_response_length)
next
  fix key response items
  assume "google_maps_api_key ext = Some key \<and> key \<noteq> [] \<and>
      requests_get ext (places_url key location specialization) = Inr response \<and>
      status_code response = 200 \<and> json response = Inr (JObj items) \<and>
      (map_of items ''results'' = None \<or> map_of items ''results'' = Some (JArr []))"
  then show "snd (get_doctors ext location specialization) = Inr []"
    by (auto simp: get_doctors_def doctors_of_response_def dict_get_def first_five_def)
qed

theorem get_doctors_at_most_five_witness:
  "snd (get_doctors (places 200 (JObj [(''results'', JArr [])])) ''Pune'' ''Cardiologist'') = Inr [] \<and>
   length ([] :: string list) \<le> 5"
proof -
  have "google_maps_api_key (places 200 (JObj [(''results'', JArr [])])) = Some ''k'' \<and> ''k'' \<noteq> [] \<and>
      requests_get (places 200 (JObj [(''results'', JArr [])])) (places_url ''k'' ''Pune'' ''Cardiologist'')
        = Inr \<lparr>status_code = 200, json = Inr (JObj [(''results'', JArr [])])\<rparr> \<and>
      status_code \<lparr>status_code = 200, json = Inr (JObj [(''results'', JArr [])])\<rparr> = 200 \<and>
      json \<lparr>status_code = 200, json = Inr (JObj [(''results'', JArr [])])\<rparr>
        = Inr (JObj [(''results'', JArr [])]) \<and>
      (map_of [(''results'', JArr [])] ''results'' = None \<or>
       map_of [(''results'', JArr [])] ''results'' = Some (JArr []))"
    by (simp add: places_def offline_def)
  with get_doctors_at_most_five
    [of "places 200 (JObj [(''results'', JArr [])])" "''Pune''" "''Cardiologist''"]
  have r: "snd (get_doctors (places 200 (JObj [(''results'', JArr [])])) ''Pune'' ''Cardiologist'') = Inr []"
    by blast
  with get_doctors_at_most_five
    [of "places 200 (JObj [(''results'', JArr [])])" "''Pune''" "''Cardiologist''"]
  show ?thesis
    by simp
qed

section \<open>Properties of the Presentation Layer\<close>

text \<open>An analyze action that ends without an exception has unlinked the temporary file
  it wrote, and has changed no other file: the last statement of each branch.\<close>

lemma main_normal_exit_unlinks_temp_file:
  assumes "file_uploader u = Some bytes" and "button u"
    and "main ext u fs = (fs', tr, None)"
  shows "fs' = fs(NamedTemporaryFile ext (if radio u = ''Image'' then ''.png'' else ''.pdf'') := None)"
proof (cases "radio u = ''Image''")
  case True
  with assms show ?thesis
    by (auto simp: main_def image_branch_def Let_def
        split: prod.splits sum.splits option.splits if_splits)
next
  case False
  with assms show ?thesis
    by (auto simp: main_def pdf_branch_def Let_def
        split: prod.splits sum.splits option.splits if_splits)
qed

lemma working_pdf_run:
  "snd (snd (main working (pdf_upload\<lparr>text_input := []\<rparr>) Map.empty)) = None \<and>
   fst (main working (pdf_upload\<lparr>text_input := []\<rparr>) Map.empty) ''/tmp/tmpk3x9.pdf'' = None"
  unfolding main_def pdf_branch_def analyze_medical_report_def range_MAX_RETRIES
  by (simp add: working_def offline_def pdf_upload_def three_pages_def show_results_def
      extract_text_from_pdf_def)

text \<open>An analyze action that an exception ends has not: the file it wrote is still there.\<close>

lemma main_exception_keeps_temp_file:
  assumes "file_uploader u = Some bytes" and "button u"
    and "main ext u fs = (fs', tr, Some e)"
  shows "fs' = fs(NamedTemporaryFile ext (if radio u = ''Image'' then ''.png'' else ''.pdf'') \<mapsto> bytes)"
proof (cases "radio u = ''Image''")
  case True
  with assms show ?thesis
    by (auto simp: main_def image_branch_def Let_def
        split: prod.splits sum.splits option.splits if_splits)
next
  case False
  with assms show ?thesis
    by (auto simp: main_def pdf_branch_def Let_def
        split: prod.splits sum.splits option.splits if_splits)
qed

text \<open>
  C9. The claim is that every analyze action deletes the temporary file it created
  on every exit path, also when extraction or analysis raises. The code does not:
  \<^verbatim>\<open>os.unlink(tmp_file_path)\<close> is a plain last statement, under no \<^verbatim>\<open>try\<close>/\<^verbatim>\<open>finally\<close>.
  In the PDF branch, on an upload that \<^verbatim>\<open>PdfReader\<close> rejects, the action ends with the
  \<^verbatim>\<open>PdfReadError\<close> and the file is still on disk; in the image branch, when the doctor
  lookup raises after a successful analysis, the action ends with that exception and
  the file is still on disk.
\<close>

theorem main_leaves_temp_file_on_exception:
  "snd (snd (main offline pdf_upload Map.empty)) = Some (PdfReadError ''EOF marker not found'') \<and>
   fst (main offline pdf_upload Map.empty) ''/tmp/tmpk3x9.pdf'' = Some ''%PDF-1.4'' \<and>
   snd (snd (main no_network image_upload Map.empty)) = Some (RequestException ''connection refused'') \<and>
   fst (main no_network image_upload Map.empty) ''/tmp/tmpk3x9.png'' = Some ''PNG-bytes''"
  unfolding main_def pdf_branch_def image_branch_def analyze_medical_report_def range_MAX_RETRIES
  by (simp add: extract_text_from_pdf_def offline_def pdf_upload_def no_network_def working_def
      image_upload_def show_results_def get_doctors_def)

end
